theory Spec2Isabelle
  imports Complex_Main "HOL-Library.AList" "HOL-Library.Sublist"
begin

section \<open>EcoTrail Gear API: values, documents and failures\<close>

text \<open>
  The handlers of \<^verbatim>\<open>main.py\<close> work on untyped documents (\<^verbatim>\<open>Dict[str, Any]\<close>).
  A document is an association list from field names to values, in the insertion order a
  Python dictionary keeps. Floats are read as the real numbers they denote (no NaN, no
  infinity); strings are byte strings.
\<close>

datatype pyval =
    VNone
  | VBool bool
  | VInt int
  | VFloat real
  | VStr string
  | VObjectId string
  | VList "pyval list"
  | VDict "(string \<times> pyval) list"

type_synonym doc = "(string \<times> pyval) list"

text \<open>A raised exception: its class name and the text \<^verbatim>\<open>str(e)\<close> gives.\<close>

datatype exn = Exn (exn_class: string) (exn_str: string)

text \<open>\<^verbatim>\<open>HTTPException(status_code=..., detail=...)\<close>.\<close>

datatype http_error = HTTPException (status_code: int) (detail: string)

text \<open>\<^verbatim>\<open>d.get(k, default)\<close>, \<^verbatim>\<open>d[k] = v\<close> and \<^verbatim>\<open>d.pop(k)\<close> on a dictionary.\<close>

definition dict_get :: "doc \<Rightarrow> string \<Rightarrow> pyval \<Rightarrow> pyval" where
  "dict_get d k dflt = (case map_of d k of None \<Rightarrow> dflt | Some v \<Rightarrow> v)"

definition dict_set :: "('k \<times> 'v) list \<Rightarrow> 'k \<Rightarrow> 'v \<Rightarrow> ('k \<times> 'v) list" where
  "dict_set d k v = AList.update k v d"

definition dict_del :: "doc \<Rightarrow> string \<Rightarrow> doc" where
  "dict_del d k = AList.delete k d"

section \<open>Impact stats\<close>

record ImpactResponse =
  trees_planted :: int
  bottles_recycled :: int
  carbon_offset_kg :: real

definition fallback_impact :: ImpactResponse where
  "fallback_impact =
     \<lparr>trees_planted = 128450, bottles_recycled = 9723450, carbon_offset_kg = 654321.5\<rparr>"

text \<open>
  \<^verbatim>\<open>get_impact\<close> (main.py, lines 33 to 47). The module \<^verbatim>\<open>database\<close> is not part of the
  sources, so the outcome of \<^verbatim>\<open>get_documents("impactstats", {}, limit=1)\<close> is the
  argument \<open>read\<close>: either an exception or the list of documents. The builtins
  \<^verbatim>\<open>int()\<close> and \<^verbatim>\<open>float()\<close> are the arguments \<open>py_int\<close> and \<open>py_float\<close>; each may
  raise. Every exception raised inside the \<^verbatim>\<open>try\<close> block is swallowed and control falls
  through to the fixed record.
\<close>

definition get_impact ::
  "(pyval \<Rightarrow> exn + int) \<Rightarrow> (pyval \<Rightarrow> exn + real) \<Rightarrow> exn + doc list \<Rightarrow> ImpactResponse" where
  "get_impact py_int py_float read =
     (case read of
        Inl e \<Rightarrow> fallback_impact
      | Inr docs \<Rightarrow>
          (case docs of
             [] \<Rightarrow> fallback_impact
           | d # _ \<Rightarrow>
               (case py_int (dict_get d ''trees_planted'' (VInt 0)) of
                  Inl e \<Rightarrow> fallback_impact
                | Inr t \<Rightarrow>
                    (case py_int (dict_get d ''bottles_recycled'' (VInt 0)) of
                       Inl e \<Rightarrow> fallback_impact
                     | Inr b \<Rightarrow>
                         (case py_float (dict_get d ''carbon_offset_kg'' (VFloat 0)) of
                            Inl e \<Rightarrow> fallback_impact
                          | Inr c \<Rightarrow>
                              \<lparr>trees_planted = t, bottles_recycled = b,
                               carbon_offset_kg = c\<rparr>)))))"

section \<open>Product listing: the query document\<close>

text \<open>
  The filter handed to the store is a dictionary whose values are a plain string
  (equality), an operator dictionary (\<^verbatim>\<open>{"$gte": ..}\<close>, \<^verbatim>\<open>{"$in": [..]}\<close>,
  \<^verbatim>\<open>{"$regex": .., "$options": ..}\<close>) or, under the key \<^verbatim>\<open>$or\<close>, a list of filters.
\<close>

datatype opexpr = Gte real | Lte real | In "string list" | Regex string | Options string

datatype fval = Lit string | Ops "opexpr list" | Alts "(string \<times> fval) list list"

type_synonym filter = "(string \<times> fval) list"

text \<open>\<^verbatim>\<open>if s:\<close> on an \<^verbatim>\<open>Optional[str]\<close>: false for \<^verbatim>\<open>None\<close> and for the empty string.\<close>

definition when_str :: "string option \<Rightarrow> (string \<Rightarrow> 'a \<Rightarrow> 'a) \<Rightarrow> 'a \<Rightarrow> 'a" where
  "when_str p f x = (case p of None \<Rightarrow> x | Some s \<Rightarrow> if s = [] then x else f s x)"

definition price_filter :: "real option \<Rightarrow> real option \<Rightarrow> opexpr list" where
  "price_filter min_price max_price =
     (case min_price of None \<Rightarrow> [] | Some m \<Rightarrow> [Gte m]) @
     (case max_price of None \<Rightarrow> [] | Some m \<Rightarrow> [Lte m])"

text \<open>Lines 86 to 108 of \<^verbatim>\<open>list_products\<close>.\<close>

definition build_filter ::
  "string option \<Rightarrow> string option \<Rightarrow> string option \<Rightarrow> string option \<Rightarrow> string option \<Rightarrow>
   real option \<Rightarrow> real option \<Rightarrow> filter" where
  "build_filter q category activity season sustainable min_price max_price =
     (let f0 = [];
          f1 = when_str q (\<lambda>s f. dict_set f ''$or''
                 (Alts [[(''title'', Ops [Regex s, Options ''i''])],
                        [(''description'', Ops [Regex s, Options ''i''])]])) f0;
          f2 = when_str category (\<lambda>s f. dict_set f ''category'' (Lit s)) f1;
          f3 = when_str activity (\<lambda>s f. dict_set f ''activity_types'' (Ops [In [s]])) f2;
          f4 = when_str season (\<lambda>s f. dict_set f ''seasons'' (Ops [In [s]])) f3;
          f5 = when_str sustainable
                 (\<lambda>s f. dict_set f ''sustainability_features'' (Ops [In [s]])) f4
      in if min_price \<noteq> None \<or> max_price \<noteq> None
         then dict_set f5 ''price'' (Ops (price_filter min_price max_price))
         else f5)"

text \<open>Lines 110 to 117: the sort mapping. \<open>None\<close> is \<^verbatim>\<open>sort_spec = None\<close>.\<close>

definition sort_spec_of :: "string option \<Rightarrow> (string \<times> int) list option" where
  "sort_spec_of sort_tok =
     (if sort_tok = Some ''price_asc'' then Some [(''price'', 1)]
      else if sort_tok = Some ''price_desc'' then Some [(''price'', - 1)]
      else if sort_tok = Some ''highest_rated'' then Some [(''rating'', - 1)]
      else None)"

text \<open>
  The declaration of the \<^verbatim>\<open>sort\<close> parameter (lines 80 to 82): its type is
  \<^verbatim>\<open>Optional[str]\<close>, its default \<^verbatim>\<open>"relevance"\<close>. The keyword \<^verbatim>\<open>enum=[...]\<close> is an
  extra keyword of \<^verbatim>\<open>Query\<close>: it is copied into the generated schema and takes no part
  in validating the value, so every string reaches the handler.
\<close>

definition sort_enum :: "string list" where
  "sort_enum = [''relevance'', ''price_asc'', ''price_desc'', ''newest'', ''best_sellers'',
                ''highest_rated'', ''most_sustainable'']"

definition sort_param :: "string option \<Rightarrow> string option" where
  "sort_param raw = (case raw of None \<Rightarrow> Some ''relevance'' | Some s \<Rightarrow> Some s)"

section \<open>The document store\<close>

text \<open>
  The store is an external service; what follows is its documented behaviour on the
  queries \<^verbatim>\<open>list_products\<close> issues. A collection is the list of its documents in the
  store's natural order.
\<close>

subsection \<open>Regular expressions\<close>

text \<open>
  \<^verbatim>\<open>$regex\<close> takes a pattern, not a literal. The patterns covered are sequences of
  ordinary characters and the dot; a pattern with any other metacharacter is outside this
  fragment (\<open>parse_pattern\<close> gives \<open>None\<close>). A match may start at any position. With
  option \<^verbatim>\<open>i\<close>, letters match in either case (ASCII).
\<close>

datatype rxitem = RChar char | RAny

definition rx_meta :: "char list" where
  "rx_meta = [CHR 0x5C, CHR ''^'', CHR ''$'', CHR ''.'', CHR ''['', CHR '']'', CHR ''|'',
              CHR ''('', CHR '')'', CHR ''?'', CHR ''*'', CHR ''+'', CHR ''{'', CHR ''}'']"

fun parse_pattern :: "string \<Rightarrow> rxitem list option" where
  "parse_pattern [] = Some []"
| "parse_pattern (c # cs) =
     (if c = CHR ''.'' then map_option ((#) RAny) (parse_pattern cs)
      else if List.member rx_meta c then None
      else map_option ((#) (RChar c)) (parse_pattern cs))"

definition to_lower :: "char \<Rightarrow> char" where
  "to_lower c = (let n = (of_char c :: nat) in if 65 \<le> n \<and> n \<le> 90 then char_of (n + 32) else c)"

fun item_match :: "bool \<Rightarrow> rxitem \<Rightarrow> char \<Rightarrow> bool" where
  "item_match ci (RChar c) x = (if ci then to_lower c = to_lower x else c = x)"
| "item_match ci RAny x = (x \<noteq> CHR 0x0A)"

fun match_here :: "bool \<Rightarrow> rxitem list \<Rightarrow> string \<Rightarrow> bool" where
  "match_here ci [] s = True"
| "match_here ci (i # is) [] = False"
| "match_here ci (i # is) (x # xs) = (item_match ci i x \<and> match_here ci is xs)"

fun search :: "bool \<Rightarrow> rxitem list \<Rightarrow> string \<Rightarrow> bool" where
  "search ci r [] = match_here ci r []"
| "search ci r (x # xs) = (match_here ci r (x # xs) \<or> search ci r xs)"

subsection \<open>Matching a document\<close>

definition num_of :: "pyval \<Rightarrow> real option" where
  "num_of v = (case v of VInt i \<Rightarrow> Some (of_int i) | VFloat r \<Rightarrow> Some r | _ \<Rightarrow> None)"

text \<open>
  A condition on a field is tested against the field's value and, when the value is an
  array, against each of its elements. A missing field offers nothing to test.
\<close>

definition cands :: "pyval option \<Rightarrow> pyval list" where
  "cands fv = (case fv of None \<Rightarrow> [] | Some (VList xs) \<Rightarrow> VList xs # xs | Some v \<Rightarrow> [v])"

definition ops_ci :: "opexpr list \<Rightarrow> bool" where
  "ops_ci ops = list_ex (\<lambda>op. case op of Options s \<Rightarrow> List.member s (CHR ''i'') | _ \<Rightarrow> False) ops"

fun op_match :: "bool \<Rightarrow> pyval option \<Rightarrow> opexpr \<Rightarrow> bool" where
  "op_match ci fv (Gte x) =
     list_ex (\<lambda>c. case num_of c of None \<Rightarrow> False | Some n \<Rightarrow> x \<le> n) (cands fv)"
| "op_match ci fv (Lte x) =
     list_ex (\<lambda>c. case num_of c of None \<Rightarrow> False | Some n \<Rightarrow> n \<le> x) (cands fv)"
| "op_match ci fv (In vs) = list_ex (\<lambda>c. List.member (map VStr vs) c) (cands fv)"
| "op_match ci fv (Regex p) =
     (case parse_pattern p of
        None \<Rightarrow> False
      | Some r \<Rightarrow> list_ex (\<lambda>c. case c of VStr s \<Rightarrow> search ci r s | _ \<Rightarrow> False) (cands fv))"
| "op_match ci fv (Options s) = True"

text \<open>Field names are top-level keys, as \<open>build_filter\<close> produces them.\<close>

fun fval_match :: "doc \<Rightarrow> string \<Rightarrow> fval \<Rightarrow> bool" where
  "fval_match d k (Lit s) = list_ex (\<lambda>c. c = VStr s) (cands (map_of d k))"
| "fval_match d k (Ops ops) = list_all (op_match (ops_ci ops) (map_of d k)) ops"
| "fval_match d k (Alts fs) =
     list_ex (\<lambda>f. list_all (\<lambda>e. fval_match d (fst e) (snd e)) f) fs"

definition matches :: "filter \<Rightarrow> doc \<Rightarrow> bool" where
  "matches f d = list_all (\<lambda>e. fval_match d (fst e) (snd e)) f"

text \<open>A filter is covered when each of its patterns is in the fragment above.\<close>

definition op_supported :: "opexpr \<Rightarrow> bool" where
  "op_supported op = (case op of Regex p \<Rightarrow> parse_pattern p \<noteq> None | _ \<Rightarrow> True)"

fun fval_supported :: "fval \<Rightarrow> bool" where
  "fval_supported (Lit s) = True"
| "fval_supported (Ops ops) = list_all op_supported ops"
| "fval_supported (Alts fs) = list_all (\<lambda>f. list_all (\<lambda>e. fval_supported (snd e)) f) fs"

definition filter_supported :: "filter \<Rightarrow> bool" where
  "filter_supported f = list_all (\<lambda>e. fval_supported (snd e)) f"

subsection \<open>Cursors\<close>

text \<open>
  \<^verbatim>\<open>cursor.sort\<close> orders by the listed keys, direction 1 ascending and -1 descending.
  Covered are documents whose sort keys are numbers; otherwise the result is \<open>None\<close>.
\<close>

definition num_field :: "string \<Rightarrow> doc \<Rightarrow> real option" where
  "num_field k d = (case map_of d k of None \<Rightarrow> None | Some v \<Rightarrow> num_of v)"

definition num_key :: "string \<Rightarrow> doc \<Rightarrow> real" where
  "num_key k d = (case num_field k d of None \<Rightarrow> 0 | Some n \<Rightarrow> n)"

definition sort_by :: "string \<times> int \<Rightarrow> doc list \<Rightarrow> doc list" where
  "sort_by kd ds =
     (if snd kd = 1 then sort_key (num_key (fst kd)) ds
      else sort_key (\<lambda>d. - num_key (fst kd) d) ds)"

definition sort_supported :: "(string \<times> int) list \<Rightarrow> doc list \<Rightarrow> bool" where
  "sort_supported spec ds =
     list_all (\<lambda>kd. (snd kd = 1 \<or> snd kd = - 1) \<and>
                    list_all (\<lambda>d. num_field (fst kd) d \<noteq> None) ds) spec"

definition cursor_sort :: "(string \<times> int) list \<Rightarrow> doc list \<Rightarrow> doc list option" where
  "cursor_sort spec ds = (if sort_supported spec ds then Some (foldr sort_by spec ds) else None)"

text \<open>\<^verbatim>\<open>cursor.skip\<close> refuses a negative count; \<^verbatim>\<open>cursor.limit(0)\<close> is no limit, and a
  negative limit counts by its absolute value.\<close>

definition cursor_skip :: "int \<Rightarrow> doc list \<Rightarrow> exn + doc list" where
  "cursor_skip n ds =
     (if n < 0 then Inl (Exn ''ValueError'' ''skip must be >= 0'') else Inr (drop (nat n) ds))"

definition cursor_limit :: "int \<Rightarrow> doc list \<Rightarrow> doc list" where
  "cursor_limit n ds = (if n = 0 then ds else take (nat \<bar>n\<bar>) ds)"

section \<open>Product listing: the handler\<close>

record ProductListResponse =
  items :: "doc list"
  total :: int
  page :: int
  page_size :: int

text \<open>
  \<^verbatim>\<open>str(v)\<close> on the values an identifier takes: a string is itself, an ObjectId its
  hexadecimal text. Other renderings are not covered (\<open>None\<close>).
\<close>

definition py_str :: "pyval \<Rightarrow> string option" where
  "py_str v =
     (case v of
        VStr s \<Rightarrow> Some s
      | VObjectId h \<Rightarrow> Some h
      | VNone \<Rightarrow> Some ''None''
      | VBool b \<Rightarrow> Some (if b then ''True'' else ''False'')
      | _ \<Rightarrow> None)"

text \<open>Line 186: \<^verbatim>\<open>doc["id"] = str(doc.pop("_id"))\<close>; \<^verbatim>\<open>pop\<close> raises on a missing key.\<close>

definition normalize_product :: "doc \<Rightarrow> (exn + doc) option" where
  "normalize_product d =
     (case map_of d ''_id'' of
        None \<Rightarrow> Some (Inl (Exn ''KeyError'' (CHR 0x27 # ''_id'' @ [CHR 0x27])))
      | Some v \<Rightarrow>
          (case py_str v of
             None \<Rightarrow> None
           | Some s \<Rightarrow> Some (Inr (dict_set (dict_del d ''_id'') ''id'' (VStr s)))))"

text \<open>Lines 184 to 187: the loop over the cursor stops at the first exception.\<close>

fun normalize_all :: "doc list \<Rightarrow> (exn + doc list) option" where
  "normalize_all [] = Some (Inr [])"
| "normalize_all (d # ds) =
     (case normalize_product d of
        None \<Rightarrow> None
      | Some (Inl e) \<Rightarrow> Some (Inl e)
      | Some (Inr d') \<Rightarrow>
          (case normalize_all ds of
             None \<Rightarrow> None
           | Some (Inl e) \<Rightarrow> Some (Inl e)
           | Some (Inr ds') \<Rightarrow> Some (Inr (d' # ds'))))"

text \<open>Python's \<^verbatim>\<open>xs[start:end]\<close>: a negative index counts from the end, and both are
  clamped to the list.\<close>

definition slice_index :: "int \<Rightarrow> int \<Rightarrow> nat" where
  "slice_index n i = nat (if i < 0 then max 0 (n + i) else min n i)"

definition py_slice :: "'a list \<Rightarrow> int \<Rightarrow> int \<Rightarrow> 'a list" where
  "py_slice xs start end' =
     (let n = int (length xs); lo = slice_index n start; hi = slice_index n end'
      in take (hi - lo) (drop lo xs))"

definition demo_items :: "doc list" where
  "demo_items =
     [[(''id'', VStr ''demo-1''),
       (''title'', VStr ''Evergreen Ultralight Tent''),
       (''price'', VFloat 349),
       (''sale_price'', VFloat 299),
       (''currency'', VStr ''USD''),
       (''category'', VStr ''Carbon-Neutral Camping Equipment''),
       (''images'', VList
          [VStr ''https://images.unsplash.com/photo-1501706362039-c06b2d715385?q=80&w=1200&auto=format&fit=crop'',
           VStr ''https://images.unsplash.com/photo-1504711434969-e33886168f5c?q=80&w=1200&auto=format&fit=crop'']),
       (''rating'', VFloat 4.7),
       (''review_count'', VInt 126),
       (''eco_badge'', VStr ''Carbon Neutral''),
       (''sustainability_features'', VList [VStr ''carbon-neutral'', VStr ''recycled''])],
      [(''id'', VStr ''demo-2''),
       (''title'', VStr ''TrailWave Recycled Fleece''),
       (''price'', VFloat 129),
       (''sale_price'', VNone),
       (''currency'', VStr ''USD''),
       (''category'', VStr ''Recycled Material Hiking Gear''),
       (''images'', VList
          [VStr ''https://images.unsplash.com/photo-1500530855697-b586d89ba3ee?q=80&w=1200&auto=format&fit=crop'',
           VStr ''https://images.unsplash.com/photo-1500534314209-a25ddb2bd429?q=80&w=1200&auto=format&fit=crop'']),
       (''rating'', VFloat 4.5),
       (''review_count'', VInt 342),
       (''eco_badge'', VStr ''Recycled Materials''),
       (''sustainability_features'', VList [VStr ''recycled''])],
      [(''id'', VStr ''demo-3''),
       (''title'', VStr ''SunSpark Solar Charger''),
       (''price'', VFloat 99),
       (''sale_price'', VFloat 89),
       (''currency'', VStr ''USD''),
       (''category'', VStr ''Renewable Energy Outdoor Accessories''),
       (''images'', VList
          [VStr ''https://images.unsplash.com/photo-1500534315581-c1f6f8a91b9b?q=80&w=1200&auto=format&fit=crop'',
           VStr ''https://images.unsplash.com/photo-1469474968028-56623f02e42e?q=80&w=1200&auto=format&fit=crop'']),
       (''rating'', VFloat 4.2),
       (''review_count'', VInt 88),
       (''eco_badge'', VStr ''Renewable Energy''),
       (''sustainability_features'', VList [VStr ''renewable''])]]"

text \<open>Any exception inside the \<^verbatim>\<open>try\<close> block becomes \<^verbatim>\<open>HTTPException(500, str(e))\<close>.\<close>

definition server_error :: "exn \<Rightarrow> http_error" where
  "server_error e = HTTPException 500 (exn_str e)"

text \<open>
  Lines 178 to 188, on the collection \<open>coll\<close>. The result is \<open>None\<close> when the query
  leaves the part of the store described above.
\<close>

definition list_from_store ::
  "doc list \<Rightarrow> filter \<Rightarrow> (string \<times> int) list option \<Rightarrow> int \<Rightarrow> int \<Rightarrow>
   (http_error + ProductListResponse) option" where
  "list_from_store coll filter_q sort_spec page' page_size' =
     (if \<not> filter_supported filter_q then None
      else
        let found = filter (matches filter_q) coll in
        case (case sort_spec of None \<Rightarrow> Some found
                | Some spec \<Rightarrow> if spec = [] then Some found else cursor_sort spec found) of
          None \<Rightarrow> None
        | Some cursor \<Rightarrow>
            let total' = int (length (filter (matches filter_q) coll)) in
            (case cursor_skip ((page' - 1) * page_size') cursor of
               Inl e \<Rightarrow> Some (Inl (server_error e))
             | Inr skipped \<Rightarrow>
                 (case normalize_all (cursor_limit page_size' skipped) of
                    None \<Rightarrow> None
                  | Some (Inl e) \<Rightarrow> Some (Inl (server_error e))
                  | Some (Inr its) \<Rightarrow>
                      Some (Inr \<lparr>items = its, total = total', page = page',
                                 page_size = page_size'\<rparr>))))"

text \<open>
  \<^verbatim>\<open>list_products\<close> (lines 72 to 190). \<open>db\<close> is \<open>None\<close> when no store is configured,
  and otherwise holds the collection \<^verbatim>\<open>product\<close>.
\<close>

definition list_products ::
  "doc list option \<Rightarrow> string option \<Rightarrow> string option \<Rightarrow> string option \<Rightarrow> string option \<Rightarrow>
   string option \<Rightarrow> real option \<Rightarrow> real option \<Rightarrow> string option \<Rightarrow> int \<Rightarrow> int \<Rightarrow>
   (http_error + ProductListResponse) option" where
  "list_products db q category activity season sustainable min_price max_price sort_tok
       page' page_size' =
     (let filter_q = build_filter q category activity season sustainable min_price max_price;
          sort_spec = sort_spec_of sort_tok
      in case db of
           None \<Rightarrow>
             (let start = (page' - 1) * page_size';
                  end' = start + page_size'
              in Some (Inr \<lparr>items = py_slice demo_items start end',
                            total = int (length demo_items),
                            page = page', page_size = page_size'\<rparr>))
         | Some coll \<Rightarrow> list_from_store coll filter_q sort_spec page' page_size')"

section \<open>Reviews\<close>

definition review_filter :: "string \<Rightarrow> int option \<Rightarrow> filter" where
  "review_filter product_id min_rating =
     (let filter_q = [(''product_id'', Lit product_id)]
      in case min_rating of
           None \<Rightarrow> filter_q
         | Some m \<Rightarrow> dict_set filter_q ''ratings.sustainability'' (Ops [Gte (of_int m)]))"

text \<open>Line 215: \<^verbatim>\<open>item["id"] = str(item.pop("_id", ""))\<close>.\<close>

definition normalize_review :: "doc \<Rightarrow> doc option" where
  "normalize_review item =
     map_option (\<lambda>s. dict_set (dict_del item ''_id'') ''id'' (VStr s))
       (py_str (dict_get item ''_id'' (VStr [])))"

text \<open>
  \<^verbatim>\<open>get_reviews\<close> (lines 207 to 218). \<open>get_documents\<close> stands for the function of that
  name in the module \<^verbatim>\<open>database\<close>, which may raise.
\<close>

definition get_reviews ::
  "(string \<Rightarrow> filter \<Rightarrow> exn + doc list) \<Rightarrow> string \<Rightarrow> int option \<Rightarrow>
   (http_error + doc list) option" where
  "get_reviews get_documents product_id min_rating =
     (case get_documents ''review'' (review_filter product_id min_rating) of
        Inl e \<Rightarrow> Some (Inl (server_error e))
      | Inr found \<Rightarrow> map_option Inr (those (map normalize_review found)))"

section \<open>Notions used to state the properties\<close>

text \<open>A parameter is present when the handler's \<^verbatim>\<open>if\<close> takes it: not \<^verbatim>\<open>None\<close>, not empty.\<close>

definition present :: "string option \<Rightarrow> bool" where
  "present p = (case p of None \<Rightarrow> False | Some s \<Rightarrow> s \<noteq> [])"

definition opt_entry :: "string option \<Rightarrow> (string \<Rightarrow> 'a) \<Rightarrow> 'a list" where
  "opt_entry p f = (case p of None \<Rightarrow> [] | Some s \<Rightarrow> if s = [] then [] else [f s])"

text \<open>The entry lines 90 to 93 store for the free-text parameter.\<close>

definition text_entry :: "string \<Rightarrow> string \<times> fval" where
  "text_entry s =
     (''$or'', Alts [[(''title'', Ops [Regex s, Options ''i''])],
                     [(''description'', Ops [Regex s, Options ''i''])]])"

text \<open>A search text without any character that a pattern reads as an operator.\<close>

definition literal_pattern :: "string \<Rightarrow> bool" where
  "literal_pattern q = list_all (\<lambda>c. \<not> List.member rx_meta c) q"

text \<open>
  Following the specification's words: \<open>q\<close> appears in \<open>s\<close> as a case-insensitive
  substring, at any position.
\<close>

definition contains_ci :: "string \<Rightarrow> string \<Rightarrow> bool" where
  "contains_ci q s = sublist (map to_lower q) (map to_lower s)"

definition text_of :: "doc \<Rightarrow> string \<Rightarrow> string option" where
  "text_of d k = (case map_of d k of Some (VStr s) \<Rightarrow> Some s | _ \<Rightarrow> None)"

definition is_array :: "doc \<Rightarrow> string \<Rightarrow> bool" where
  "is_array d k = (case map_of d k of Some (VList xs) \<Rightarrow> True | _ \<Rightarrow> False)"

definition text_contains :: "string \<Rightarrow> doc \<Rightarrow> string \<Rightarrow> bool" where
  "text_contains q d k = (case text_of d k of None \<Rightarrow> False | Some s \<Rightarrow> contains_ci q s)"






section \<open>Auxiliary facts\<close>

subsection \<open>Dictionaries\<close>



lemma dict_del_absent: "map_of d k = None \<Longrightarrow> dict_del d k = d"
  by (induction d) (auto simp add: dict_del_def AList.delete_eq split: if_splits)

subsection \<open>The fallback path\<close>

lemma length_demo_items: "length demo_items = 3"
  by (simp add: demo_items_def)

lemma fallback_eq:
  "list_products None q c a s su mn mx so p ps =
   Some (Inr \<lparr>items = py_slice demo_items ((p - 1) * ps) ((p - 1) * ps + ps),
              total = 3, page = p, page_size = ps\<rparr>)"
  by (simp add: list_products_def length_demo_items Let_def)

lemma length_py_slice:
  "length (py_slice xs a b) =
   slice_index (int (length xs)) b - slice_index (int (length xs)) a"
  by (simp add: py_slice_def Let_def slice_index_def)


lemma fallback_empty_iff:
  assumes "p \<le> 0" "1 \<le> s"
  shows "py_slice demo_items ((p - 1) * s) ((p - 1) * s + s) = [] \<longleftrightarrow> p = 0 \<or> p * s \<le> - 3"
proof -
  have e: "(p - 1) * s + s = p * s" by (simp add: algebra_simps)
  have neg: "(p - 1) * s < 0" using assms by (simp add: mult_less_0_iff)
  have "py_slice demo_items ((p - 1) * s) (p * s) = [] \<longleftrightarrow>
        length (py_slice demo_items ((p - 1) * s) (p * s)) = 0" by simp
  also have "\<dots> \<longleftrightarrow> slice_index 3 (p * s) \<le> slice_index 3 ((p - 1) * s)"
    by (simp add: length_py_slice length_demo_items)
  also have "\<dots> \<longleftrightarrow> p = 0 \<or> p * s \<le> - 3"
  proof (cases "p = 0")
    case True
    then show ?thesis using neg by (simp add: slice_index_def)
  next
    case False
    then have "p * s < 0" using assms by (simp add: mult_less_0_iff)
    moreover have "(p - 1) * s = p * s - s" by (simp add: algebra_simps)
    ultimately show ?thesis using False assms neg by (auto simp add: slice_index_def max_def)
  qed
  finally show ?thesis by (simp add: e)
qed

subsection \<open>Normalisation\<close>




lemma those_map_Some:
  "those (map f xs) = Some ys \<longleftrightarrow> list_all2 (\<lambda>x y. f x = Some y) xs ys"
proof (induction xs arbitrary: ys)
  case Nil
  then show ?case by auto
next
  case (Cons x xs)
  show ?case
  proof (cases "f x")
    case None
    then show ?thesis by (auto simp add: list_all2_Cons1)
  next
    case (Some y)
    then show ?thesis using Cons.IH
      by (cases "those (map f xs)") (auto simp add: list_all2_Cons1)
  qed
qed

lemma those_total:
  assumes "list_all (\<lambda>x. \<exists>y. f x = Some y) xs"
  shows "\<exists>ys. those (map f xs) = Some ys"
  using assms by (induction xs) auto

lemma normalize_review_total:
  assumes "case map_of item ''_id'' of None \<Rightarrow> True | Some v \<Rightarrow> py_str v \<noteq> None"
  shows "\<exists>item'. normalize_review item = Some item'"
  using assms
  by (auto simp add: normalize_review_def dict_get_def py_str_def split: option.splits)

lemma normalize_review_absent:
  assumes "map_of item ''_id'' = None"
  shows "normalize_review item = Some (dict_set item ''id'' (VStr []))"
  using assms by (simp add: normalize_review_def dict_get_def py_str_def dict_del_absent)

subsection \<open>Cursors and the store path\<close>












subsection \<open>The filter\<close>


lemma opt_entry_absent: "\<not> present p \<Longrightarrow> opt_entry p f = []"
  by (simp add: opt_entry_def present_def split: option.splits)

lemma opt_entry_present: "s \<noteq> [] \<Longrightarrow> opt_entry (Some s) f = [f s]"
  by (simp add: opt_entry_def)

lemma map_fst_opt_entry:
  "map fst (opt_entry p (\<lambda>x. (k, g x))) = (if present p then [k] else [])"
  by (simp add: opt_entry_def present_def split: option.splits)

lemma map_fst_text_entry:
  "map fst (opt_entry p text_entry) = (if present p then [''$or''] else [])"
  by (simp add: opt_entry_def present_def text_entry_def split: option.splits)

lemma matches_append: "matches (f @ g) d \<longleftrightarrow> matches f d \<and> matches g d"
  by (simp add: matches_def)

lemma matches_Nil: "matches [] d"
  by (simp add: matches_def)

lemma parse_literal: "literal_pattern q \<Longrightarrow> parse_pattern q = Some (map RChar q)"
  by (induction q) (auto simp add: literal_pattern_def rx_meta_def)

lemma match_here_literal:
  "match_here True (map RChar q) s \<longleftrightarrow> prefix (map to_lower q) (map to_lower s)"
proof (induction q arbitrary: s)
  case Nil
  then show ?case by simp
next
  case (Cons c q)
  then show ?case by (cases s) auto
qed

lemma search_literal:
  "search True (map RChar q) s \<longleftrightarrow> sublist (map to_lower q) (map to_lower s)"
proof (induction s)
  case Nil
  then show ?case by (cases q) simp_all
next
  case (Cons x xs)
  then show ?case
    by (simp add: match_here_literal sublist_Cons_right del: match_here.simps)
qed

lemma regex_field:
  assumes "literal_pattern q" "\<not> is_array d k"
  shows "fval_match d k (Ops [Regex q, Options ''i'']) \<longleftrightarrow> text_contains q d k"
proof -
  have ci: "ops_ci [Regex q, Options ''i'']" by (simp add: ops_ci_def)
  show ?thesis
  proof (cases "map_of d k")
    case None
    then show ?thesis
      by (simp add: ci parse_literal [OF assms(1)] cands_def text_contains_def text_of_def)
  next
    case (Some v)
    with assms(2) show ?thesis
      by (cases v)
         (simp_all add: ci parse_literal [OF assms(1)] cands_def text_contains_def text_of_def
            is_array_def search_literal contains_ci_def)
  qed
qed

lemma text_entry_match:
  assumes "literal_pattern q" "\<not> is_array d ''title''" "\<not> is_array d ''description''"
  shows "matches [text_entry q] d \<longleftrightarrow>
         text_contains q d ''title'' \<or> text_contains q d ''description''"
  using regex_field [OF assms(1,2)] regex_field [OF assms(1,3)]
  by (simp add: matches_def text_entry_def del: fval_match.simps(2))

lemma price_entry_match:
  assumes "num_field ''price'' d = Some p"
  shows "fval_match d ''price'' (Ops (price_filter mn mx)) \<longleftrightarrow>
         (case mn of None \<Rightarrow> True | Some lo \<Rightarrow> lo \<le> p) \<and>
         (case mx of None \<Rightarrow> True | Some hi \<Rightarrow> p \<le> hi)"
proof -
  from assms obtain v where v: "map_of d ''price'' = Some v" "num_of v = Some p"
    by (auto simp add: num_field_def split: option.splits)
  then have "cands (map_of d ''price'') = [v]"
    by (cases v) (simp_all add: cands_def num_of_def)
  with v show ?thesis
    by (simp add: price_filter_def split: option.splits)
qed

lemma contains_ci_empty: "q \<noteq> [] \<Longrightarrow> \<not> contains_ci q []"
  by (simp add: contains_ci_def)

section \<open>Properties\<close>

subsection \<open>Impact stats\<close>

text \<open>
  C5. Reading the impact stats always yields a response, and when the store read raises
  or returns no record the response is exactly the record with 128450 trees planted,
  9723450 bottles recycled and a carbon offset of 654321.5 kg.
\<close>

theorem get_impact_fallback:
  "get_impact py_int py_float (Inl e) =
     \<lparr>trees_planted = 128450, bottles_recycled = 9723450, carbon_offset_kg = 654321.5\<rparr>
   \<and> get_impact py_int py_float (Inr []) =
     \<lparr>trees_planted = 128450, bottles_recycled = 9723450, carbon_offset_kg = 654321.5\<rparr>"
  by (simp add: get_impact_def fallback_impact_def)

subsection \<open>The fallback listing\<close>

text \<open>
  C4. Without a store, page 1 with page size 12 returns the three demo items, ids
  demo-1, demo-2, demo-3 in this order, and total 3, whatever the filter parameters
  (and the sort token) are.
\<close>

theorem fallback_first_page:
  "list_products None q category activity season sustainable min_price max_price sort_tok 1 12
     = Some (Inr \<lparr>items = demo_items, total = 3, page = 1, page_size = 12\<rparr>)
   \<and> map (\<lambda>d. map_of d ''id'') demo_items =
       [Some (VStr ''demo-1''), Some (VStr ''demo-2''), Some (VStr ''demo-3'')]"
proof
  show "list_products None q category activity season sustainable min_price max_price
          sort_tok 1 12
        = Some (Inr \<lparr>items = demo_items, total = 3, page = 1, page_size = 12\<rparr>)"
    by (simp add: fallback_eq py_slice_def slice_index_def length_demo_items)
  show "map (\<lambda>d. map_of d ''id'') demo_items =
       [Some (VStr ''demo-1''), Some (VStr ''demo-2''), Some (VStr ''demo-3'')]"
    by (simp add: demo_items_def)
qed

text \<open>The same with every filter parameter supplied.\<close>

theorem fallback_first_page_witness:
  "list_products None (Some ''tent'') (Some ''camping'') (Some ''hiking'') (Some ''winter'')
     (Some ''recycled'') (Some 10) (Some 20) (Some ''price_desc'') 1 12
   = Some (Inr \<lparr>items = demo_items, total = 3, page = 1, page_size = 12\<rparr>)"
  using fallback_first_page
    [of "Some ''tent''" "Some ''camping''" "Some ''hiking''" "Some ''winter''"
        "Some ''recycled''" "Some 10" "Some 20" "Some ''price_desc''"]
  by simp

text \<open>
  C1. A sort token outside the recognised set is not turned away: the token
  \<^verbatim>\<open>foo\<close> is not in the list the declaration names, the handler runs with it, resolves
  it to no ordering and returns a listing.
\<close>

theorem unlisted_sort_token_listed:
  "\<not> List.member sort_enum ''foo''
   \<and> sort_spec_of (sort_param (Some ''foo'')) = None
   \<and> list_products None None None None None None None None (sort_param (Some ''foo'')) 1 12
       = Some (Inr \<lparr>items = demo_items, total = 3, page = 1, page_size = 12\<rparr>)"
  by (simp add: fallback_eq py_slice_def slice_index_def length_demo_items sort_enum_def
      sort_param_def sort_spec_of_def)

text \<open>
  C9, as stated, fails: without a store, page -1 with page size 1 returns the second
  demo item, because both slice bounds are negative and count from the end.
\<close>

theorem fallback_negative_page_counterexample:
  "list_products None None None None None None None None None (- 1) 1
     = Some (Inr \<lparr>items = [demo_items ! 1], total = 3, page = - 1, page_size = 1\<rparr>)"
  by (simp add: fallback_eq py_slice_def slice_index_def length_demo_items)
     (simp add: demo_items_def)

text \<open>
  C9, amended. Without a store, for a page at most 0 and a page size of at least 1, the
  total is 3 and the items are empty exactly when the page is 0 or page times page size is
  at most -3.
\<close>

theorem fallback_nonpositive_page:
  assumes "p \<le> 0" and "1 \<le> s"
  shows "\<exists>r. list_products None q category activity season sustainable min_price max_price
               sort_tok p s = Some (Inr r)
           \<and> total r = 3
           \<and> (items r = [] \<longleftrightarrow> p = 0 \<or> p * s \<le> - 3)"
  using fallback_empty_iff [OF assms] by (simp add: fallback_eq)

theorem fallback_nonpositive_page_witness:
  "(\<exists>r. list_products None None None None None None None None None 0 12 = Some (Inr r)
        \<and> total r = 3 \<and> items r = [])
   \<and> (\<exists>r. list_products None None None None None None None None None (- 3) 1 = Some (Inr r)
        \<and> total r = 3 \<and> items r = [])"
  using fallback_nonpositive_page [of 0 12 None None None None None None None None]
        fallback_nonpositive_page [of "- 3" 1 None None None None None None None None]
  by simp

subsection \<open>Pagination\<close>





subsection \<open>Sorting\<close>




end
